theory Spec2Isabelle
  imports Complex_Main
begin

section \<open>smile2dock: SMILES to 3D converter\<close>

text \<open>
  The script \<^verbatim>\<open>smile2dock.py\<close> sequences calls into RDKit, OpenBabel and
  Dimorphite-DL. The libraries are not part of the repository: they are a parameter of
  every definition below (the record \<open>libs\<close>), each call returning either a value or an
  exception. What the script itself does (which calls it makes, in which order, with which
  arguments, what it prints, logs and writes, and what it returns when a call fails) is
  embedded as functions that return their result together with the list of events they
  produced, in program order.

  Python floats (pH bounds, descriptor values, similarity scores) are only passed around
  and printed, never computed with; they are carried as \<open>real\<close>. The built-in \<^verbatim>\<open>print\<close>,
  the \<^verbatim>\<open>logging\<close> calls and the writes to the protonation file are events that do not
  fail; opening the input file may fail.
\<close>

subsection \<open>Exceptions, messages, events\<close>

text \<open>
  \<open>exn\<close> stands for an instance of a subclass of Python's \<^verbatim>\<open>Exception\<close>, the class every
  \<^verbatim>\<open>except Exception\<close> clause of the script catches.
\<close>

datatype exn = IndexError | TypeError | LibError string

type_synonym props = "(string \<times> real) list"

text \<open>The texts the script prints or logs, one constructor for each format string.\<close>

datatype msg =
    Error_protonating string exn
  | Generated_states nat real real
  | Variant nat string
  | Using_first string
  | Invalid_smiles string
  | Conformer_failed string exn
  | Optimization_failed nat string exn
  | OpenBabel_failed exn
  | Write_failed string exn
  | Property_failed exn
  | Error_processing string exn
  | Molecules_None
  | Invalid_reference string
  | Processed string
  | Properties props
  | Tanimoto_to_reference real
  | Protonation_saved string
  | Generated_files "string list"
  | Molecular_properties_header
  | Property_line string real
  | Protonation_header real real
  | Numbered_variant nat string

text \<open>The rows written to \<^verbatim>\<open>protonation_states.txt\<close>.\<close>

datatype row = Header_row | Variant_row string string real real

text \<open>
  An event is a call into a library (with its arguments), a line printed to standard
  output, a logging record, or an operation on the protonation file. The two call sites
  that parse the reference SMILES use \<open>Call_MolFromSmiles_ref\<close>, so that a trace tells
  them from the parse of the input.
\<close>

datatype ('m, 'o) event =
    Print msg
  | Log_error msg
  | Log_warning msg
  | Call_protonate string real real real nat
  | Call_MolFromSmiles string
  | Call_MolFromSmiles_ref string
  | Call_AddHs 'm
  | Call_EmbedMultipleConfs 'm int int bool
  | Call_MMFFOptimizeMolecule 'm nat string nat
  | Call_MolToMolBlock 'm
  | Call_readstring string string
  | Call_makedirs string
  | Call_write 'o string string
  | Call_descriptor string 'm
  | Call_Morgan 'm int int
  | Call_FingerprintMol 'm
  | Call_TanimotoSimilarity
  | File_open string
  | File_write string row
  | File_close string

subsection \<open>The libraries\<close>

text \<open>
  \<open>'m\<close> is an RDKit molecule (with its conformers), \<open>'o\<close> an OpenBabel molecule, \<open>'f\<close> a
  fingerprint. A call that mutates the molecule returns the molecule after the call.
  \<open>MMFFOptimizeMolecule\<close> returns the molecule together with the exception it raised, if
  any, since the script goes on with the molecule after a failed optimization.
  \<open>descriptor\<close> is the family of descriptor functions, indexed by their qualified names.
\<close>

record ('m, 'o, 'f) libs =
  dimorphite_protonate :: "string \<Rightarrow> real \<Rightarrow> real \<Rightarrow> real \<Rightarrow> nat \<Rightarrow> exn + string list"
  MolFromSmiles :: "string \<Rightarrow> 'm option"
  AddHs :: "'m \<Rightarrow> exn + 'm"
  EmbedMultipleConfs :: "'m \<Rightarrow> int \<Rightarrow> int \<Rightarrow> bool \<Rightarrow> exn + 'm"
  GetNumConformers :: "'m \<Rightarrow> nat"
  MMFFOptimizeMolecule :: "'m \<Rightarrow> nat \<Rightarrow> string \<Rightarrow> nat \<Rightarrow> 'm \<times> exn option"
  MolToMolBlock :: "'m \<Rightarrow> exn + string"
  pybel_readstring :: "string \<Rightarrow> string \<Rightarrow> exn + 'o"
  ob_write :: "'o \<Rightarrow> string \<Rightarrow> string \<Rightarrow> exn option"
  descriptor :: "string \<Rightarrow> 'm \<Rightarrow> exn + real"
  GetMorganFingerprintAsBitVect :: "'m \<Rightarrow> int \<Rightarrow> int \<Rightarrow> exn + 'f"
  FingerprintMol :: "'m \<Rightarrow> exn + 'f"
  TanimotoSimilarity :: "'f \<Rightarrow> 'f \<Rightarrow> exn + real"
  os_path_dirname :: "string \<Rightarrow> string"
  os_path_join :: "string \<Rightarrow> string \<Rightarrow> string"
  os_path_exists :: "string \<Rightarrow> bool"
  os_path_isfile :: "string \<Rightarrow> bool"
  os_makedirs :: "string \<Rightarrow> exn option"
  open_lines :: "string \<Rightarrow> exn + string list"

text \<open>\<open>emit es r\<close>: the events \<open>es\<close> happen, then the computation \<open>r\<close>.\<close>

definition emit :: "'e list \<Rightarrow> 'a \<times> 'e list \<Rightarrow> 'a \<times> 'e list" where
  "emit es r = (fst r, es @ snd r)"

subsection \<open>ensure_output_dir and protonate_smiles\<close>

definition ensure_output_dir ::
  "('m, 'o, 'f) libs \<Rightarrow> string \<Rightarrow> exn option \<times> ('m, 'o) event list" where
  "ensure_output_dir L output_base =
     (let out_dir = os_path_dirname L output_base in
      if out_dir \<noteq> [] \<and> \<not> os_path_exists L out_dir
      then (os_makedirs L out_dir, [Call_makedirs out_dir])
      else (None, []))"

definition protonate_smiles ::
  "('m, 'o, 'f) libs \<Rightarrow> string \<Rightarrow> real \<Rightarrow> real \<Rightarrow> real \<Rightarrow> nat \<Rightarrow>
     string list \<times> ('m, 'o) event list" where
  "protonate_smiles L smiles ph_min ph_max precision max_variants =
     emit [Call_protonate smiles ph_min ph_max precision max_variants]
       (case dimorphite_protonate L smiles ph_min ph_max precision max_variants of
          Inr protonated_smiles \<Rightarrow> (protonated_smiles, [])
        | Inl e \<Rightarrow> ([smiles], [Print (Error_protonating smiles e)]))"

subsection \<open>smiles_to_3d\<close>

text \<open>
  The protonation block (lines 48 to 59). It returns the value of \<open>protonated_variants\<close>,
  the SMILES that the rest of the function works on, and the exception raised, if any:
  \<^verbatim>\<open>protonated_variants[0]\<close> raises IndexError on an empty list, after the prints.
\<close>

definition choose_smiles ::
  "('m, 'o, 'f) libs \<Rightarrow> string \<Rightarrow> bool \<Rightarrow> real \<Rightarrow> real \<Rightarrow>
     (exn option \<times> string list option \<times> string) \<times> ('m, 'o) event list" where
  "choose_smiles L smiles protonate ph_min ph_max =
     (if protonate then
        (case protonate_smiles L smiles ph_min ph_max 1.0 128 of
           (protonated_variants, ev) \<Rightarrow>
             emit (ev @ [Print (Generated_states (length protonated_variants) ph_min ph_max)]
                   @ map (\<lambda>(i, variant). Print (Variant (i + 1) variant))
                       (enumerate 0 protonated_variants))
               (case protonated_variants of
                  [] \<Rightarrow> ((Some IndexError, Some protonated_variants, smiles), [])
                | v # vs \<Rightarrow>
                    ((None, Some protonated_variants, v),
                     if length protonated_variants > 1 then [Print (Using_first v)] else [])))
      else ((None, Some [smiles], smiles), []))"

text \<open>The optimization loop over the conformer ids (lines 80 to 89).\<close>

fun optimize_conformers ::
  "('m, 'o, 'f) libs \<Rightarrow> string \<Rightarrow> nat list \<Rightarrow> 'm \<Rightarrow> 'm \<times> ('m, 'o) event list" where
  "optimize_conformers L smiles [] mol = (mol, [])"
| "optimize_conformers L smiles (conf_id # rest) mol =
     emit [Call_MMFFOptimizeMolecule mol conf_id ''MMFF94s'' 1000]
       (case MMFFOptimizeMolecule L mol conf_id ''MMFF94s'' 1000 of
          (mol', None) \<Rightarrow> optimize_conformers L smiles rest mol'
        | (mol', Some e) \<Rightarrow>
            emit [Log_warning (Optimization_failed conf_id smiles e)]
              (optimize_conformers L smiles rest mol'))"

text \<open>The loop over the four output formats (lines 103 to 108).\<close>

definition formats :: "string list" where
  "formats = [''pdb'', ''mol2'', ''sdf'', ''pdbqt'']"

fun write_formats ::
  "('m, 'o, 'f) libs \<Rightarrow> 'o \<Rightarrow> string \<Rightarrow> string list \<Rightarrow> ('m, 'o) event list" where
  "write_formats L ob_mol output_base [] = []"
| "write_formats L ob_mol output_base (fmt # rest) =
     (let output = output_base @ ''.'' @ fmt in
      Call_write ob_mol fmt output
      # (case ob_write L ob_mol fmt output of
           None \<Rightarrow> []
         | Some e \<Rightarrow> [Log_error (Write_failed output e)])
      @ write_formats L ob_mol output_base rest)"

text \<open>
  The dictionary of descriptors (lines 112 to 123): its keys in insertion order, each with
  the library function that computes its value. The first call that raises ends the
  evaluation of the dictionary display.
\<close>

definition property_table :: "(string \<times> string) list" where
  "property_table =
     [(''Molecular Weight'', ''Descriptors.ExactMolWt''),
      (''Crippen_LogP'', ''Crippen.MolLogP''),
      (''Crippen_MR'', ''Crippen.MolMR''),
      (''H-Bond Donors'', ''Descriptors.NumHDonors''),
      (''H-Bond Acceptors'', ''Descriptors.NumHAcceptors''),
      (''TPSA'', ''Descriptors.TPSA''),
      (''Rotatable Bonds'', ''Descriptors.NumRotatableBonds''),
      (''#Aliphatic Rings'', ''rdMolDescriptors.CalcNumAliphaticRings''),
      (''#Aromatic Rings'', ''rdMolDescriptors.CalcNumAromaticRings''),
      (''#Heteroaromatic Rings'', ''rdMolDescriptors.CalcNumHeterocycles'')]"

fun calc_properties ::
  "('m, 'o, 'f) libs \<Rightarrow> 'm \<Rightarrow> (string \<times> string) list \<Rightarrow>
     (exn + props) \<times> ('m, 'o) event list" where
  "calc_properties L mol [] = (Inr [], [])"
| "calc_properties L mol ((key, fn) # rest) =
     emit [Call_descriptor fn mol]
       (case descriptor L fn mol of
          Inl e \<Rightarrow> (Inl e, [])
        | Inr v \<Rightarrow>
            (case calc_properties L mol rest of
               (Inl e, ev) \<Rightarrow> (Inl e, ev)
             | (Inr ps, ev) \<Rightarrow> (Inr ((key, v) # ps), ev)))"

text \<open>
  The body of the outer \<^verbatim>\<open>try\<close> after the protonation block, in two parts. \<open>Inr\<close> is a
  \<^verbatim>\<open>return\<close> of the molecule and the properties, \<open>Inl\<close> an exception that no inner
  \<^verbatim>\<open>except\<close> clause caught. \<open>export_and_describe\<close> is lines 91 to 128: the conversion
  to OpenBabel, the output directory, the four files and the descriptors.
\<close>

definition export_and_describe ::
  "('m, 'o, 'f) libs \<Rightarrow> 'm \<Rightarrow> string \<Rightarrow>
     (exn + 'm option \<times> props option) \<times> ('m, 'o) event list" where
  "export_and_describe L mol output_base =
     emit [Call_MolToMolBlock mol]
      (case MolToMolBlock L mol of
         Inl e \<Rightarrow> (Inr (None, None), [Log_error (OpenBabel_failed e)])
       | Inr sdf_data \<Rightarrow>
     emit [Call_readstring ''mol'' sdf_data]
      (case pybel_readstring L ''mol'' sdf_data of
         Inl e \<Rightarrow> (Inr (None, None), [Log_error (OpenBabel_failed e)])
       | Inr ob_mol \<Rightarrow>
      (case ensure_output_dir L output_base of
         (Some e, ev_dir) \<Rightarrow> (Inl e, ev_dir)
       | (None, ev_dir) \<Rightarrow>
     emit (ev_dir @ write_formats L ob_mol output_base formats)
      (case calc_properties L mol property_table of
         (Inl e, ev_p) \<Rightarrow> (Inr (Some mol, Some []), ev_p @ [Log_error (Property_failed e)])
       | (Inr properties, ev_p) \<Rightarrow> (Inr (Some mol, Some properties), ev_p)))))"

text \<open>
  \<open>build_3d\<close> is lines 61 to 89 (parse, add hydrogens, embed with the random seed 42,
  optimize each conformer when \<open>optimize\<close> is set), followed by \<open>export_and_describe\<close>.
\<close>

definition build_3d ::
  "('m, 'o, 'f) libs \<Rightarrow> string \<Rightarrow> string \<Rightarrow> int \<Rightarrow> bool \<Rightarrow>
     (exn + 'm option \<times> props option) \<times> ('m, 'o) event list" where
  "build_3d L smiles output_base num_confs optimize =
     emit [Call_MolFromSmiles smiles]
      (case MolFromSmiles L smiles of
         None \<Rightarrow> (Inr (None, None), [Log_error (Invalid_smiles smiles)])
       | Some mol0 \<Rightarrow>
     emit [Call_AddHs mol0]
      (case AddHs L mol0 of
         Inl e \<Rightarrow> (Inl e, [])
       | Inr mol1 \<Rightarrow>
     emit [Call_EmbedMultipleConfs mol1 num_confs 42 True]
      (case EmbedMultipleConfs L mol1 num_confs 42 True of
         Inl e \<Rightarrow> (Inr (None, None), [Log_error (Conformer_failed smiles e)])
       | Inr mol2 \<Rightarrow>
      (case (if optimize
             then optimize_conformers L smiles [0..<GetNumConformers L mol2] mol2
             else (mol2, [])) of
         (mol, ev_opt) \<Rightarrow> emit ev_opt (export_and_describe L mol output_base)))))"

text \<open>
  The whole function: the outer \<^verbatim>\<open>except Exception\<close> (lines 130 to 132) logs with the
  current value of \<open>smiles\<close> and returns the current value of \<open>protonated_variants\<close>.
\<close>

definition smiles_to_3d ::
  "('m, 'o, 'f) libs \<Rightarrow> string \<Rightarrow> string \<Rightarrow> int \<Rightarrow> bool \<Rightarrow> bool \<Rightarrow> real \<Rightarrow> real \<Rightarrow>
     ('m option \<times> props option \<times> string list option) \<times> ('m, 'o) event list" where
  "smiles_to_3d L smiles output_base num_confs optimize protonate ph_min ph_max =
     (case choose_smiles L smiles protonate ph_min ph_max of
        ((Some e, protonated_variants, smiles'), ev) \<Rightarrow>
          ((None, None, protonated_variants), ev @ [Log_error (Error_processing smiles' e)])
      | ((None, protonated_variants, smiles'), ev) \<Rightarrow>
          emit ev
            (case build_3d L smiles' output_base num_confs optimize of
               (Inr (mol, properties), ev') \<Rightarrow> ((mol, properties, protonated_variants), ev')
             | (Inl e, ev') \<Rightarrow>
                 ((None, None, protonated_variants),
                  ev' @ [Log_error (Error_processing smiles' e)])))"

subsection \<open>calculate_tanimoto_similarity\<close>

text \<open>
  The function has no \<^verbatim>\<open>try\<close>: an exception of a fingerprint or similarity call leaves it
  (\<open>Inl\<close>). \<open>Inr None\<close> is \<^verbatim>\<open>return None\<close>.
\<close>

definition calculate_tanimoto_similarity ::
  "('m, 'o, 'f) libs \<Rightarrow> 'm option \<Rightarrow> 'm option \<Rightarrow> string \<Rightarrow> int \<Rightarrow> int \<Rightarrow>
     (exn + real option) \<times> ('m, 'o) event list" where
  "calculate_tanimoto_similarity L mol1 mol2 fp_type radius n_bits =
     (case (mol1, mol2) of
        (Some m1, Some m2) \<Rightarrow>
          (case (if fp_type = ''morgan''
                 then emit [Call_Morgan m1 radius n_bits]
                       (case GetMorganFingerprintAsBitVect L m1 radius n_bits of
                          Inl e \<Rightarrow> (Inl e, [])
                        | Inr fp1 \<Rightarrow>
                            emit [Call_Morgan m2 radius n_bits]
                              (case GetMorganFingerprintAsBitVect L m2 radius n_bits of
                                 Inl e \<Rightarrow> (Inl e, [])
                               | Inr fp2 \<Rightarrow> (Inr (fp1, fp2), [])))
                 else emit [Call_FingerprintMol m1]
                       (case FingerprintMol L m1 of
                          Inl e \<Rightarrow> (Inl e, [])
                        | Inr fp1 \<Rightarrow>
                            emit [Call_FingerprintMol m2]
                              (case FingerprintMol L m2 of
                                 Inl e \<Rightarrow> (Inl e, [])
                               | Inr fp2 \<Rightarrow> (Inr (fp1, fp2), [])))) of
             (Inl e, ev) \<Rightarrow> (Inl e, ev)
           | (Inr (fp1, fp2), ev) \<Rightarrow>
               (case TanimotoSimilarity L fp1 fp2 of
                  Inl e \<Rightarrow> (Inl e, ev @ [Call_TanimotoSimilarity])
                | Inr s \<Rightarrow> (Inr (Some s), ev @ [Call_TanimotoSimilarity])))
      | _ \<Rightarrow> (Inr None, [Log_warning Molecules_None]))"

text \<open>
  The three lines both callers share (183 to 185 and 214 to 216): the similarity is
  printed when it is not \<^verbatim>\<open>None\<close>; an exception leaves the caller too.
\<close>

definition report_similarity ::
  "('m, 'o, 'f) libs \<Rightarrow> 'm option \<Rightarrow> 'm option \<Rightarrow> string \<Rightarrow> int \<Rightarrow> int \<Rightarrow>
     exn option \<times> ('m, 'o) event list" where
  "report_similarity L mol ref_mol fp_type radius n_bits =
     (case calculate_tanimoto_similarity L mol ref_mol fp_type radius n_bits of
        (Inl e, ev) \<Rightarrow> (Some e, ev)
      | (Inr None, ev) \<Rightarrow> (None, ev)
      | (Inr (Some similarity), ev) \<Rightarrow> (None, ev @ [Print (Tanimoto_to_reference similarity)]))"

subsection \<open>single_process\<close>

definition single_process ::
  "('m, 'o, 'f) libs \<Rightarrow> string \<Rightarrow> string \<Rightarrow> int \<Rightarrow> string option \<Rightarrow> string \<Rightarrow> int \<Rightarrow> int \<Rightarrow>
     bool \<Rightarrow> real \<Rightarrow> real \<Rightarrow> exn option \<times> ('m, 'o) event list" where
  "single_process L smiles output_base num_confs reference_smiles fp_type radius n_bits
       protonate ph_min ph_max =
     (case smiles_to_3d L smiles output_base num_confs True protonate ph_min ph_max of
        ((mol, props, protonated_variants), ev) \<Rightarrow>
     emit ev
      (case props of
         Some (p # ps) \<Rightarrow>
           emit ([Print (Generated_files (map (\<lambda>fmt. output_base @ ''.'' @ fmt) formats)),
                  Print Molecular_properties_header]
                 @ map (\<lambda>(k, v). Print (Property_line k v)) (p # ps)
                 @ (case protonated_variants of
                      Some (v # vs) \<Rightarrow>
                        if protonate
                        then Print (Protonation_header ph_min ph_max)
                             # map (\<lambda>(i, variant). Print (Numbered_variant i variant))
                                 (enumerate 1 (v # vs))
                        else []
                    | _ \<Rightarrow> []))
             (case reference_smiles of
                Some (c # cs) \<Rightarrow>
                  emit [Call_MolFromSmiles_ref (c # cs)]
                    (case MolFromSmiles L (c # cs) of
                       Some ref_mol \<Rightarrow>
                         report_similarity L mol (Some ref_mol) fp_type radius n_bits
                     | None \<Rightarrow> (None, [Print (Invalid_reference (c # cs))]))
              | _ \<Rightarrow> (None, []))
       | _ \<Rightarrow> (None, [])))"

subsection \<open>batch_process\<close>

text \<open>
  \<^verbatim>\<open>line.strip()\<close> removes leading and trailing whitespace; on ASCII text these are the
  characters 9 to 13, 28 to 31 and 32. \<open>str_nat\<close> is the decimal text of a number, as the
  f-string \<^verbatim>\<open>f"mol_{idx+1}"\<close> renders it.
\<close>

definition is_space :: "char \<Rightarrow> bool" where
  "is_space c = (of_char c \<in> {9, 10, 11, 12, 13, 28, 29, 30, 31, 32 :: nat})"

definition strip :: "string \<Rightarrow> string" where
  "strip s = rev (dropWhile is_space (rev (dropWhile is_space s)))"

definition digit_char :: "nat \<Rightarrow> char" where
  "digit_char d = char_of (48 + d)"

fun str_nat :: "nat \<Rightarrow> string" where
  "str_nat n = (if n < 10 then [digit_char n] else str_nat (n div 10) @ [digit_char (n mod 10)])"

declare str_nat.simps [simp del]

text \<open>
  The body of the loop (lines 166 to 185) for the line \<open>line\<close> at the 0-based position
  \<open>idx\<close>. \<open>protonation_file\<close> is the path of the open protonation file, if there is one.
\<close>

definition batch_line ::
  "('m, 'o, 'f) libs \<Rightarrow> string \<Rightarrow> 'm option \<Rightarrow> string \<Rightarrow> int \<Rightarrow> int \<Rightarrow> bool \<Rightarrow> real \<Rightarrow> real \<Rightarrow>
     int \<Rightarrow> string option \<Rightarrow> nat \<Rightarrow> string \<Rightarrow> exn option \<times> ('m, 'o) event list" where
  "batch_line L output_dir ref_mol fp_type radius n_bits protonate ph_min ph_max num_confs
       protonation_file idx line =
     (let smiles = strip line in
      if smiles \<noteq> [] then
        (let base_name = os_path_join L output_dir (''mol_'' @ str_nat (idx + 1)) in
         case smiles_to_3d L smiles base_name num_confs True protonate ph_min ph_max of
           ((mol, props, protonated_variants), ev) \<Rightarrow>
         emit ev
          (case props of
             Some (p # ps) \<Rightarrow>
               emit ([Print (Processed smiles), Print (Properties (p # ps))]
                     @ (case (protonated_variants, protonation_file) of
                          (Some (v # vs), Some pf) \<Rightarrow>
                            if protonate
                            then map (\<lambda>variant. File_write pf (Variant_row smiles variant ph_min ph_max))
                                   (v # vs)
                            else []
                        | _ \<Rightarrow> []))
                 (case ref_mol of
                    Some r \<Rightarrow> report_similarity L mol (Some r) fp_type radius n_bits
                  | None \<Rightarrow> (None, []))
           | _ \<Rightarrow> (None, [])))
      else (None, []))"

text \<open>
  The loop over \<^verbatim>\<open>enumerate(f)\<close>. An exception that leaves the body leaves the loop.
\<close>

fun batch_loop ::
  "('m, 'o, 'f) libs \<Rightarrow> string \<Rightarrow> 'm option \<Rightarrow> string \<Rightarrow> int \<Rightarrow> int \<Rightarrow> bool \<Rightarrow> real \<Rightarrow> real \<Rightarrow>
     int \<Rightarrow> string option \<Rightarrow> (nat \<times> string) list \<Rightarrow> exn option \<times> ('m, 'o) event list" where
  "batch_loop L output_dir ref_mol fp_type radius n_bits protonate ph_min ph_max num_confs
       protonation_file [] = (None, [])"
| "batch_loop L output_dir ref_mol fp_type radius n_bits protonate ph_min ph_max num_confs
       protonation_file ((idx, line) # rest) =
     (case batch_line L output_dir ref_mol fp_type radius n_bits protonate ph_min ph_max
             num_confs protonation_file idx line of
        (Some e, ev) \<Rightarrow> (Some e, ev)
      | (None, ev) \<Rightarrow>
          emit ev (batch_loop L output_dir ref_mol fp_type radius n_bits protonate ph_min
                     ph_max num_confs protonation_file rest))"

definition batch_process ::
  "('m, 'o, 'f) libs \<Rightarrow> string \<Rightarrow> string \<Rightarrow> string option \<Rightarrow> string \<Rightarrow> int \<Rightarrow> int \<Rightarrow> bool \<Rightarrow>
     real \<Rightarrow> real \<Rightarrow> int \<Rightarrow> exn option \<times> ('m, 'o) event list" where
  "batch_process L input_file output_dir reference_smiles fp_type radius n_bits protonate
       ph_min ph_max num_confs =
     (case (case reference_smiles of
              Some (c # cs) \<Rightarrow>
                (case MolFromSmiles L (c # cs) of
                   None \<Rightarrow> (None, [Call_MolFromSmiles_ref (c # cs),
                                     Log_error (Invalid_reference (c # cs))])
                 | Some r \<Rightarrow> (Some r, [Call_MolFromSmiles_ref (c # cs)]))
            | _ \<Rightarrow> (None, [])) of
        (ref_mol, ev_ref) \<Rightarrow>
     (let pf = os_path_join L output_dir ''protonation_states.txt'';
          protonation_file = (if protonate then Some pf else None) in
      emit (ev_ref @ (if protonate then [File_open pf, File_write pf Header_row] else []))
       (case open_lines L input_file of
          Inl e \<Rightarrow> (Some e, [])
        | Inr lines \<Rightarrow>
            (case batch_loop L output_dir ref_mol fp_type radius n_bits protonate ph_min
                    ph_max num_confs protonation_file (enumerate 0 lines) of
               (Some e, ev) \<Rightarrow> (Some e, ev)
             | (None, ev) \<Rightarrow>
                 (None, ev @ (if protonate
                              then [File_close pf, Print (Protonation_saved pf)]
                              else []))))))"

subsection \<open>The command line\<close>

text \<open>
  The namespace that \<^verbatim>\<open>parse_args\<close> returns, one field for each \<^verbatim>\<open>add_argument\<close>
  (lines 231 to 246). \<^verbatim>\<open>--input\<close> and \<^verbatim>\<open>--reference\<close> have no default: they are
  \<^verbatim>\<open>None\<close> when absent, and \<^verbatim>\<open>os.path.isfile(None)\<close> raises TypeError.
\<close>

record args =
  args_input :: "string option"
  args_output :: string
  args_num_confs :: int
  args_protonate :: bool
  args_ph_min :: real
  args_ph_max :: real
  args_precision :: real
  args_max_variants :: int
  args_reference :: "string option"
  args_fp_type :: string
  args_radius :: int
  args_bits :: int

definition main :: "('m, 'o, 'f) libs \<Rightarrow> args \<Rightarrow> exn option \<times> ('m, 'o) event list" where
  "main L a =
     (case args_input a of
        None \<Rightarrow> (Some TypeError, [])
      | Some inp \<Rightarrow>
          if os_path_isfile L inp then
            emit [Call_makedirs (args_output a)]
              (case os_makedirs L (args_output a) of
                 Some e \<Rightarrow> (Some e, [])
               | None \<Rightarrow>
                   batch_process L inp (args_output a) (args_reference a) (args_fp_type a)
                     (args_radius a) (args_bits a) (args_protonate a) (args_ph_min a)
                     (args_ph_max a) (args_num_confs a))
          else
            single_process L inp (args_output a) (args_num_confs a) (args_reference a)
              (args_fp_type a) (args_radius a) (args_bits a) (args_protonate a)
              (args_ph_min a) (args_ph_max a))"

subsection \<open>A toy instance of the libraries\<close>

text \<open>
  A small instance of \<open>libs\<close> on which the definitions can be run. A molecule is the
  SMILES it was parsed from, extended by a mark for each call that changed it. The SMILES
  \<open>XX\<close> is invalid, protonation yields two variants, embedding yields two conformers, and
  the Morgan fingerprint raises on a negative radius.
\<close>

definition toy_dirname :: "string \<Rightarrow> string" where
  "toy_dirname p = rev (drop 1 (dropWhile (\<lambda>c. c \<noteq> CHR ''/'') (rev p)))"

definition toy_libs :: "(string, string, string) libs" where
  "toy_libs =
     \<lparr> dimorphite_protonate = (\<lambda>s lo hi p n. Inr [s @ ''[+]'', s]),
       MolFromSmiles = (\<lambda>s. if s = ''XX'' then None else Some s),
       AddHs = (\<lambda>m. Inr (m @ ''.H'')),
       EmbedMultipleConfs = (\<lambda>m n seed chir. Inr (m @ ''.3D'')),
       GetNumConformers = (\<lambda>m. 2),
       MMFFOptimizeMolecule = (\<lambda>m c v i. (m @ ''.opt'', None)),
       MolToMolBlock = (\<lambda>m. Inr m),
       pybel_readstring = (\<lambda>fmt s. Inr s),
       ob_write = (\<lambda>ob fmt path. None),
       descriptor = (\<lambda>name m. Inr 1),
       GetMorganFingerprintAsBitVect =
         (\<lambda>m r n. if r < 0 then Inl (LibError ''OverflowError'') else Inr m),
       FingerprintMol = (\<lambda>m. Inr m),
       TanimotoSimilarity = (\<lambda>a b. Inr (if a = b then 1 else 0)),
       os_path_dirname = toy_dirname,
       os_path_join = (\<lambda>a b. a @ ''/'' @ b),
       os_path_exists = (\<lambda>p. True),
       os_path_isfile = (\<lambda>p. p = ''a.smi'' \<or> p = ''b.smi''),
       os_makedirs = (\<lambda>p. None),
       open_lines =
         (\<lambda>p. if p = ''a.smi'' then Inr [''XX'' @ [CHR 0x0A], ''C'' @ [CHR 0x0A]]
              else if p = ''b.smi'' then Inr [''C'' @ [CHR 0x0A], ''C'' @ [CHR 0x0A]]
              else Inl (LibError ''FileNotFoundError'')) \<rparr>"

subsection \<open>The steps of the pipeline\<close>

text \<open>
  Each event belongs to at most one step of the pipeline: the protonation (the call and the
  prints of its block), the parse of the input SMILES (with the added hydrogens, as the
  comment at line 61 groups them), the embedding, the optimization, the export (conversion
  to OpenBabel, output directory, the four files), the descriptors, the written results
  (the prints of the results and the rows of the protonation file), and the similarity (the
  parse of the reference, the fingerprints, the score and its print). Logging records and
  the opening and closing of the protonation file belong to no step.
\<close>

datatype stage =
  Protonate | Parse | Embed | Optimize | Export | Descriptors | Write_outputs | Similarity

fun stage_of_msg :: "msg \<Rightarrow> stage" where
  "stage_of_msg (Error_protonating s e) = Protonate"
| "stage_of_msg (Generated_states n lo hi) = Protonate"
| "stage_of_msg (Variant i v) = Protonate"
| "stage_of_msg (Using_first v) = Protonate"
| "stage_of_msg (Tanimoto_to_reference s) = Similarity"
| "stage_of_msg (Invalid_reference r) = Similarity"
| "stage_of_msg m = Write_outputs"

fun stage_of :: "('m, 'o) event \<Rightarrow> stage option" where
  "stage_of (Print m) = Some (stage_of_msg m)"
| "stage_of (Call_protonate s lo hi p n) = Some Protonate"
| "stage_of (Call_MolFromSmiles s) = Some Parse"
| "stage_of (Call_AddHs m) = Some Parse"
| "stage_of (Call_EmbedMultipleConfs m n seed chir) = Some Embed"
| "stage_of (Call_MMFFOptimizeMolecule m c v i) = Some Optimize"
| "stage_of (Call_MolToMolBlock m) = Some Export"
| "stage_of (Call_readstring fmt s) = Some Export"
| "stage_of (Call_makedirs d) = Some Export"
| "stage_of (Call_write ob fmt path) = Some Export"
| "stage_of (Call_descriptor name m) = Some Descriptors"
| "stage_of (Call_MolFromSmiles_ref r) = Some Similarity"
| "stage_of (Call_Morgan m r n) = Some Similarity"
| "stage_of (Call_FingerprintMol m) = Some Similarity"
| "stage_of Call_TanimotoSimilarity = Some Similarity"
| "stage_of (File_write f r) = Some Write_outputs"
| "stage_of e = None"

fun stages :: "('m, 'o) event list \<Rightarrow> stage list" where
  "stages [] = []"
| "stages (e # ev) = (case stage_of e of None \<Rightarrow> stages ev | Some s \<Rightarrow> s # stages ev)"

text \<open>
  \<open>claimed_rank\<close> numbers the steps in the order the specification lists them;
  \<open>code_rank\<close> numbers them in the order the code runs them. A trace follows an order when
  the ranks of its steps never decrease.
\<close>

fun claimed_rank :: "stage \<Rightarrow> nat" where
  "claimed_rank Parse = 0"
| "claimed_rank Protonate = 1"
| "claimed_rank Embed = 2"
| "claimed_rank Optimize = 3"
| "claimed_rank Export = 4"
| "claimed_rank Descriptors = 5"
| "claimed_rank Similarity = 6"
| "claimed_rank Write_outputs = 7"

fun code_rank :: "stage \<Rightarrow> nat" where
  "code_rank Protonate = 0"
| "code_rank Parse = 1"
| "code_rank Embed = 2"
| "code_rank Optimize = 3"
| "code_rank Export = 4"
| "code_rank Descriptors = 5"
| "code_rank Write_outputs = 6"
| "code_rank Similarity = 7"

definition follows_order :: "(stage \<Rightarrow> nat) \<Rightarrow> ('m, 'o) event list \<Rightarrow> bool" where
  "follows_order rank ev = sorted (map rank (stages ev))"

text \<open>The toy libraries with a protonation library that raises on every call.\<close>

definition toy_libs_protonation_fails :: "(string, string, string) libs" where
  "toy_libs_protonation_fails =
     toy_libs \<lparr> dimorphite_protonate := (\<lambda>s lo hi p n. Inl (LibError ''ValueError'')) \<rparr>"

subsection \<open>The similarity as the specification words it\<close>

text \<open>
  The specification of \<open>calculate_tanimoto_similarity\<close>, in its words: \<^verbatim>\<open>None\<close> when a
  molecule is \<^verbatim>\<open>None\<close>; otherwise the Tanimoto similarity of the two fingerprints, Morgan
  fingerprints when \<open>fp_type\<close> is \<open>morgan\<close> and RDKit fingerprints otherwise. A call that
  raises ends the computation with its exception.
\<close>

definition fingerprint_spec ::
  "('m, 'o, 'f) libs \<Rightarrow> string \<Rightarrow> int \<Rightarrow> int \<Rightarrow> 'm \<Rightarrow> exn + 'f" where
  "fingerprint_spec L fp_type radius n_bits m =
     (if fp_type = ''morgan'' then GetMorganFingerprintAsBitVect L m radius n_bits
      else FingerprintMol L m)"

definition tanimoto_spec ::
  "('m, 'o, 'f) libs \<Rightarrow> 'm option \<Rightarrow> 'm option \<Rightarrow> string \<Rightarrow> int \<Rightarrow> int \<Rightarrow> exn + real option" where
  "tanimoto_spec L mol1 mol2 fp_type radius n_bits =
     (case (mol1, mol2) of
        (Some m1, Some m2) \<Rightarrow>
          (case fingerprint_spec L fp_type radius n_bits m1 of
             Inl e \<Rightarrow> Inl e
           | Inr fp1 \<Rightarrow>
               (case fingerprint_spec L fp_type radius n_bits m2 of
                  Inl e \<Rightarrow> Inl e
                | Inr fp2 \<Rightarrow>
                    (case TanimotoSimilarity L fp1 fp2 of
                       Inl e \<Rightarrow> Inl e
                     | Inr s \<Rightarrow> Inr (Some s))))
      | _ \<Rightarrow> Inr None)"


subsection \<open>What smiles_to_3d returns\<close>



section \<open>Properties\<close>

subsection \<open>Steps of the loops and of the parts of smiles_to_3d\<close>

lemma emit_simps [simp]: "fst (emit es r) = fst r" "snd (emit es r) = es @ snd r"
  by (simp_all add: emit_def)

lemma stages_append [simp]: "stages (xs @ ys) = stages xs @ stages ys"
  by (induction xs) (auto split: option.splits)

lemma stages_uniform:
  "(\<And>e. e \<in> set ev \<Longrightarrow> stage_of e = Some s) \<Longrightarrow> stages ev = replicate (length ev) s"
  by (induction ev) auto

lemma stages_map_uniform:
  "(\<And>x. stage_of (f x) = Some s) \<Longrightarrow> stages (map f xs) = replicate (length xs) s"
  by (induction xs) auto

lemma sorted_all_same: "(\<And>s. s \<in> set xs \<Longrightarrow> s = a) \<Longrightarrow> sorted (map rank xs)"
  by (induction xs) auto

lemma optimize_conformers_stages [simp]:
  "stages (snd (optimize_conformers L smiles cs mol)) = replicate (length cs) Optimize"
  by (induction cs arbitrary: mol) (auto split: prod.splits option.splits)

lemma write_formats_stages [simp]:
  "stages (write_formats L ob base fmts) = replicate (length fmts) Export"
  by (induction fmts) (auto split: option.splits simp: Let_def)

lemma calc_properties_stages [simp]:
  "stages (snd (calc_properties L mol tab)) =
     replicate (length (snd (calc_properties L mol tab))) Descriptors"
  by (induction tab) (auto split: prod.splits sum.splits)

lemma ensure_output_dir_stages [simp]:
  "stages (snd (ensure_output_dir L base)) =
     replicate (length (snd (ensure_output_dir L base))) Export"
  by (simp add: ensure_output_dir_def Let_def)

lemma export_and_describe_order:
  "sorted (map code_rank (stages (snd (export_and_describe L mol base))))"
  by (auto simp: export_and_describe_def split_beta sorted_append set_replicate_conv_if
       split: option.splits sum.splits)

lemma export_and_describe_rank:
  "s \<in> set (stages (snd (export_and_describe L mol base))) \<Longrightarrow>
     4 \<le> code_rank s \<and> code_rank s \<le> 5"
  by (auto simp: export_and_describe_def split_beta set_replicate_conv_if
       split: option.splits sum.splits if_splits)

lemma build_3d_order:
  "sorted (map code_rank (stages (snd (build_3d L smiles base n opt))))"
  by (auto simp: build_3d_def split_beta sorted_append export_and_describe_order
       dest: export_and_describe_rank
       split: option.splits sum.splits)

lemma build_3d_rank:
  "s \<in> set (stages (snd (build_3d L smiles base n opt))) \<Longrightarrow>
     1 \<le> code_rank s \<and> code_rank s \<le> 5"
  by (auto simp: build_3d_def split_beta
       dest: export_and_describe_rank
       split: option.splits sum.splits if_splits)

lemma choose_smiles_stages:
  "stages (snd (choose_smiles L smiles prot lo hi)) =
     replicate (length (snd (choose_smiles L smiles prot lo hi))) Protonate"
  by (rule stages_uniform)
     (auto simp: choose_smiles_def protonate_smiles_def split_beta emit_def
           split: if_splits sum.splits list.splits)

lemma smiles_to_3d_order:
  "sorted (map code_rank (stages (snd (smiles_to_3d L smiles base n opt prot lo hi))))"
  by (auto simp: smiles_to_3d_def split_beta choose_smiles_stages build_3d_order sorted_append
       dest: build_3d_rank
       split: option.splits sum.splits)

lemma smiles_to_3d_rank:
  "s \<in> set (stages (snd (smiles_to_3d L smiles base n opt prot lo hi))) \<Longrightarrow> code_rank s \<le> 5"
  by (auto simp: smiles_to_3d_def split_beta choose_smiles_stages
       dest: build_3d_rank
       split: option.splits sum.splits if_splits)

lemma calculate_tanimoto_similarity_stages:
  "s \<in> set (stages (snd (calculate_tanimoto_similarity L m1 m2 fp r nb))) \<Longrightarrow> s = Similarity"
  by (auto simp: calculate_tanimoto_similarity_def split_beta
       split: option.splits sum.splits if_splits)

lemma report_similarity_stages:
  "s \<in> set (stages (snd (report_similarity L m1 m2 fp r nb))) \<Longrightarrow> s = Similarity"
  by (auto simp: report_similarity_def split_beta
       dest: calculate_tanimoto_similarity_stages
       split: option.splits sum.splits if_splits)

lemma report_similarity_rank:
  "s \<in> set (stages (snd (report_similarity L m1 m2 fp r nb))) \<Longrightarrow> code_rank s = 7"
  by (auto dest: report_similarity_stages)

lemma report_similarity_order:
  "sorted (map code_rank (stages (snd (report_similarity L m1 m2 fp r nb))))"
  by (rule sorted_all_same [where a = Similarity]) (rule report_similarity_stages)

lemma single_process_order:
  "follows_order code_rank
     (snd (single_process L smiles output_base num_confs reference_smiles fp_type radius n_bits
             protonate ph_min ph_max))"
proof -
  obtain mol props pv ev where
    r: "smiles_to_3d L smiles output_base num_confs True protonate ph_min ph_max
          = ((mol, props, pv), ev)"
    by (metis prod.exhaust)
  have ev: "sorted (map code_rank (stages ev))"
    and le: "\<And>s. s \<in> set (stages ev) \<Longrightarrow> code_rank s \<le> 5"
    using smiles_to_3d_order [of L smiles output_base num_confs True protonate ph_min ph_max]
      smiles_to_3d_rank [of _ L smiles output_base num_confs True protonate ph_min ph_max]
    by (simp_all add: r)
  show ?thesis
    unfolding single_process_def r follows_order_def
    by (auto simp: split_beta sorted_append ev report_similarity_order stages_map_uniform
          report_similarity_rank
        dest!: le
        split: option.splits list.splits)
qed

lemma batch_line_order:
  "follows_order code_rank
     (snd (batch_line L output_dir ref_mol fp_type radius n_bits protonate ph_min ph_max
             num_confs protonation_file idx line))"
proof -
  define base where "base = os_path_join L output_dir (''mol_'' @ str_nat (idx + 1))"
  obtain mol props pv ev where
    r: "smiles_to_3d L (strip line) base num_confs True protonate ph_min ph_max
          = ((mol, props, pv), ev)"
    by (metis prod.exhaust)
  have ev: "sorted (map code_rank (stages ev))"
    and le: "\<And>s. s \<in> set (stages ev) \<Longrightarrow> code_rank s \<le> 5"
    using smiles_to_3d_order [of L "strip line" base num_confs True protonate ph_min ph_max]
      smiles_to_3d_rank [of _ L "strip line" base num_confs True protonate ph_min ph_max]
    by (simp_all add: r)
  show ?thesis
    unfolding batch_line_def Let_def base_def [symmetric] r follows_order_def
    by (auto simp: split_beta sorted_append ev report_similarity_order stages_map_uniform
          report_similarity_rank
        dest!: le
        split: option.splits list.splits)
qed

subsection \<open>The order of the pipeline\<close>

text \<open>
  Claim C1, as the code has it. Every run of \<open>single_process\<close>, and every pass of the loop
  of \<open>batch_process\<close> over one line, goes through the steps in this order, each step
  possibly absent: protonation of the SMILES text (when requested), parse of the resulting
  SMILES, 3D embedding, optimization, export of the four files, descriptors, writing of the
  results (prints and rows of the protonation file), and last the similarity to the
  reference (computed and printed).
\<close>

theorem pipeline_order:
  "follows_order code_rank
     (snd (single_process L smiles output_base num_confs reference_smiles fp_type radius n_bits
             protonate ph_min ph_max))
   \<and> follows_order code_rank
     (snd (batch_line L output_dir ref_mol fp_type radius n_bits protonate ph_min ph_max
             num_confs protonation_file idx line))"
  by (simp add: single_process_order batch_line_order)

theorem pipeline_order_witness:
  "follows_order code_rank
     (snd (single_process toy_libs ''C'' ''out/m'' 2 (Some ''CC'') ''morgan'' 2 2048
             True 6.4 8.4))
   \<and> follows_order code_rank
     (snd (batch_line toy_libs ''out'' (Some ''CC'') ''morgan'' 2 2048 True 6.4 8.4 2
             (Some ''out/protonation_states.txt'') 1 ''C''))"
  by (rule pipeline_order)

text \<open>
  The order the specification lists (parse, protonate, embed, optimize, export,
  descriptors, similarity, write outputs) is not the order of the code: with protonation
  requested and a reference given, the SMILES is protonated before it is parsed, and the
  results are printed before the similarity is computed. After merging adjacent equal
  steps, the run below goes through the steps as listed in the second conjunct.
\<close>

theorem pipeline_order_counterexample:
  "\<not> follows_order claimed_rank
       (snd (single_process toy_libs ''C'' ''out/m'' 2 (Some ''CC'') ''morgan'' 2 2048
               True 6.4 8.4))
   \<and> remdups_adj
       (stages (snd (single_process toy_libs ''C'' ''out/m'' 2 (Some ''CC'') ''morgan'' 2 2048
                       True 6.4 8.4)))
     = [Protonate, Parse, Embed, Optimize, Export, Descriptors, Write_outputs, Similarity]"
  by code_simp

subsection \<open>Which SMILES is parsed\<close>

lemma stage_in_stages: "e \<in> set ev \<Longrightarrow> stage_of e = Some s \<Longrightarrow> s \<in> set (stages ev)"
  by (induction ev) (auto split: option.splits)

lemma export_and_describe_no_parse:
  "Call_MolFromSmiles s \<notin> set (snd (export_and_describe L mol base))"
  using export_and_describe_rank [of Parse L mol base]
    stage_in_stages [of "Call_MolFromSmiles s" "snd (export_and_describe L mol base)" Parse]
  by auto

lemma optimize_conformers_no_parse:
  "Call_MolFromSmiles s \<notin> set (snd (optimize_conformers L smiles cs mol))"
  using stage_in_stages [of "Call_MolFromSmiles s" "snd (optimize_conformers L smiles cs mol)" Parse]
  by auto

lemma build_3d_parses:
  "Call_MolFromSmiles s \<in> set (snd (build_3d L smiles base n opt)) \<longleftrightarrow> s = smiles"
  by (auto simp: build_3d_def split_beta export_and_describe_no_parse optimize_conformers_no_parse
       split: option.splits sum.splits if_splits)

subsection \<open>Protonation\<close>

text \<open>
  Claim C8. When the call into Dimorphite-DL raises, \<open>protonate_smiles\<close> prints the error
  and returns the list that holds only the input SMILES; \<open>smiles_to_3d\<close> with protonation
  requested (it calls with precision 1.0 and at most 128 variants) then returns the same
  molecule, properties and variant list as without protonation.
\<close>

theorem protonation_failure_falls_back:
  "dimorphite_protonate L smiles ph_min ph_max precision max_variants = Inl e \<Longrightarrow>
     protonate_smiles L smiles ph_min ph_max precision max_variants
       = ([smiles], [Call_protonate smiles ph_min ph_max precision max_variants,
                     Print (Error_protonating smiles e)])
     \<and> (precision = 1 \<and> max_variants = 128 \<longrightarrow>
          fst (smiles_to_3d L smiles output_base num_confs optimize True ph_min ph_max)
            = fst (smiles_to_3d L smiles output_base num_confs optimize False ph_min ph_max))"
  by (auto simp: protonate_smiles_def smiles_to_3d_def choose_smiles_def emit_def
       split: prod.splits sum.splits)

theorem protonation_failure_falls_back_witness:
  "protonate_smiles toy_libs_protonation_fails ''C'' 6.4 8.4 1 128
     = ([''C''], [Call_protonate ''C'' 6.4 8.4 1 128,
                  Print (Error_protonating ''C'' (LibError ''ValueError''))])
   \<and> fst (smiles_to_3d toy_libs_protonation_fails ''C'' ''out/m'' 2 True True 6.4 8.4)
       = fst (smiles_to_3d toy_libs_protonation_fails ''C'' ''out/m'' 2 True False 6.4 8.4)"
  using protonation_failure_falls_back [of toy_libs_protonation_fails "''C''" "6.4" "8.4" 1 128
      "LibError ''ValueError''" "''out/m''" 2 True]
  by (simp add: toy_libs_protonation_fails_def toy_libs_def)

text \<open>
  Claim C3. Without a request for protonation, \<open>smiles_to_3d\<close> returns the variant list
  that holds only the input SMILES, on every path; no event of the protonation step occurs,
  and the only SMILES it parses is the input itself.
\<close>

theorem no_protonation_unless_requested:
  "snd (snd (fst (smiles_to_3d L smiles output_base num_confs optimize False ph_min ph_max)))
     = Some [smiles]
   \<and> Protonate \<notin> set (stages (snd (smiles_to_3d L smiles output_base num_confs optimize False
                                       ph_min ph_max)))
   \<and> (\<forall>s. Call_MolFromSmiles s
             \<in> set (snd (smiles_to_3d L smiles output_base num_confs optimize False
                            ph_min ph_max))
           \<longleftrightarrow> s = smiles)"
  using build_3d_rank [of Protonate L smiles output_base num_confs optimize]
    build_3d_parses [of _ L smiles output_base num_confs optimize]
  by (auto simp: smiles_to_3d_def choose_smiles_def split_beta split: sum.splits)

theorem no_protonation_unless_requested_witness:
  "snd (snd (fst (smiles_to_3d toy_libs ''C'' ''out/m'' 2 True False 6.4 8.4))) = Some [''C'']
   \<and> Protonate \<notin> set (stages (snd (smiles_to_3d toy_libs ''C'' ''out/m'' 2 True False 6.4 8.4)))
   \<and> (\<forall>s. Call_MolFromSmiles s
             \<in> set (snd (smiles_to_3d toy_libs ''C'' ''out/m'' 2 True False 6.4 8.4))
           \<longleftrightarrow> s = ''C'')"
  by (rule no_protonation_unless_requested)

text \<open>
  Claim C9. When protonation is requested and yields the variants \<open>v # vs\<close>,
  \<open>smiles_to_3d\<close> returns the molecule and the properties of the first variant \<open>v\<close>, and
  after the prints of the protonation block its events are those of a run on \<open>v\<close> without
  protonation: the other variants \<open>vs\<close> occur in the prints (and in the returned list)
  only.
\<close>

theorem first_variant_only:
  "dimorphite_protonate L smiles ph_min ph_max 1 128 = Inr (v # vs) \<Longrightarrow>
     fst (fst (smiles_to_3d L smiles output_base num_confs optimize True ph_min ph_max))
       = fst (fst (smiles_to_3d L v output_base num_confs optimize False ph_min ph_max))
     \<and> fst (snd (fst (smiles_to_3d L smiles output_base num_confs optimize True ph_min ph_max)))
       = fst (snd (fst (smiles_to_3d L v output_base num_confs optimize False ph_min ph_max)))
     \<and> snd (smiles_to_3d L smiles output_base num_confs optimize True ph_min ph_max)
       = [Call_protonate smiles ph_min ph_max 1 128,
          Print (Generated_states (length (v # vs)) ph_min ph_max)]
         @ map (\<lambda>(i, variant). Print (Variant (i + 1) variant)) (enumerate 0 (v # vs))
         @ (if vs \<noteq> [] then [Print (Using_first v)] else [])
         @ snd (smiles_to_3d L v output_base num_confs optimize False ph_min ph_max)"
  by (auto simp: protonate_smiles_def smiles_to_3d_def choose_smiles_def emit_def
       split: prod.splits sum.splits)

theorem first_variant_only_witness:
  "fst (fst (smiles_to_3d toy_libs ''C'' ''out/m'' 2 True True 6.4 8.4))
       = fst (fst (smiles_to_3d toy_libs ''C[+]'' ''out/m'' 2 True False 6.4 8.4))
     \<and> fst (snd (fst (smiles_to_3d toy_libs ''C'' ''out/m'' 2 True True 6.4 8.4)))
       = fst (snd (fst (smiles_to_3d toy_libs ''C[+]'' ''out/m'' 2 True False 6.4 8.4)))
     \<and> snd (smiles_to_3d toy_libs ''C'' ''out/m'' 2 True True 6.4 8.4)
       = [Call_protonate ''C'' 6.4 8.4 1 128,
          Print (Generated_states 2 6.4 8.4),
          Print (Variant 1 ''C[+]''), Print (Variant 2 ''C''), Print (Using_first ''C[+]'')]
         @ snd (smiles_to_3d toy_libs ''C[+]'' ''out/m'' 2 True False 6.4 8.4)"
  using first_variant_only [of toy_libs "''C''" "6.4" "8.4" "''C[+]''" "[''C'']" "''out/m''" 2 True]
  by (simp add: toy_libs_def enumerate_eq_zip)

subsection \<open>Tanimoto similarity\<close>

text \<open>
  Claim C7. \<open>calculate_tanimoto_similarity\<close> returns \<^verbatim>\<open>None\<close> exactly when one of the two
  molecules is \<^verbatim>\<open>None\<close>, and logs its warning exactly then; in every case its result is
  the one the specification words: the Tanimoto similarity of the Morgan fingerprints when
  \<open>fp_type\<close> is \<open>morgan\<close>, of the RDKit fingerprints otherwise.
\<close>

theorem tanimoto_none_iff:
  "(fst (calculate_tanimoto_similarity L mol1 mol2 fp_type radius n_bits) = Inr None
      \<longleftrightarrow> mol1 = None \<or> mol2 = None)
   \<and> (Log_warning Molecules_None
        \<in> set (snd (calculate_tanimoto_similarity L mol1 mol2 fp_type radius n_bits))
      \<longleftrightarrow> mol1 = None \<or> mol2 = None)
   \<and> fst (calculate_tanimoto_similarity L mol1 mol2 fp_type radius n_bits)
       = tanimoto_spec L mol1 mol2 fp_type radius n_bits"
  by (auto simp: calculate_tanimoto_similarity_def tanimoto_spec_def fingerprint_spec_def emit_def
       split: option.splits sum.splits prod.splits if_splits)

theorem tanimoto_none_iff_witness:
  "fst (calculate_tanimoto_similarity toy_libs (Some ''C'') None ''morgan'' 2 2048) = Inr None
   \<and> Log_warning Molecules_None
        \<in> set (snd (calculate_tanimoto_similarity toy_libs (Some ''C'') None ''morgan'' 2 2048))
   \<and> fst (calculate_tanimoto_similarity toy_libs (Some ''C'') (Some ''C'') ''rdkit'' 2 2048)
       = Inr (Some 1)"
  using tanimoto_none_iff [of toy_libs "Some ''C''" None "''morgan''" 2 2048]
    tanimoto_none_iff [of toy_libs "Some ''C''" "Some ''C''" "''rdkit''" 2 2048]
  by (simp add: tanimoto_spec_def fingerprint_spec_def toy_libs_def)

subsection \<open>Similarity only with a reference\<close>

lemma smiles_to_3d_no_similarity:
  "Similarity \<notin> set (stages (snd (smiles_to_3d L smiles base n opt prot lo hi)))"
  using smiles_to_3d_rank [of Similarity L smiles base n opt prot lo hi] by auto

lemma single_process_no_reference:
  "reference_smiles = None \<or> reference_smiles = Some [] \<Longrightarrow>
     Similarity \<notin> set (stages (snd (single_process L smiles output_base num_confs
        reference_smiles fp_type radius n_bits protonate ph_min ph_max)))"
proof -
  assume ref: "reference_smiles = None \<or> reference_smiles = Some []"
  obtain mol props pv ev where
    r: "smiles_to_3d L smiles output_base num_confs True protonate ph_min ph_max
          = ((mol, props, pv), ev)"
    by (metis prod.exhaust)
  have ev: "Similarity \<notin> set (stages ev)"
    using smiles_to_3d_no_similarity [of L smiles output_base num_confs True protonate ph_min ph_max]
    by (simp add: r)
  show ?thesis
    using ref unfolding single_process_def r
    by (auto simp: split_beta ev stages_map_uniform split: option.splits list.splits)
qed

lemma batch_line_no_reference:
  "Similarity \<notin> set (stages (snd (batch_line L output_dir None fp_type radius n_bits protonate
      ph_min ph_max num_confs protonation_file idx line)))"
proof -
  define base where "base = os_path_join L output_dir (''mol_'' @ str_nat (idx + 1))"
  obtain mol props pv ev where
    r: "smiles_to_3d L (strip line) base num_confs True protonate ph_min ph_max
          = ((mol, props, pv), ev)"
    by (metis prod.exhaust)
  have ev: "Similarity \<notin> set (stages ev)"
    using smiles_to_3d_no_similarity [of L "strip line" base num_confs True protonate ph_min ph_max]
    by (simp add: r)
  show ?thesis
    unfolding batch_line_def Let_def base_def [symmetric] r
    by (auto simp: split_beta ev stages_map_uniform split: option.splits list.splits)
qed

lemma batch_loop_no_reference:
  "Similarity \<notin> set (stages (snd (batch_loop L output_dir None fp_type radius n_bits protonate
      ph_min ph_max num_confs protonation_file xs)))"
proof (induction xs)
  case Nil
  show ?case by simp
next
  case (Cons x xs)
  obtain idx line where x: "x = (idx, line)" by (cases x)
  show ?case
    using Cons batch_line_no_reference [of L output_dir fp_type radius n_bits protonate
        ph_min ph_max num_confs protonation_file idx line]
    by (auto simp: x split: prod.splits option.splits)
qed

lemma batch_process_no_reference:
  "reference_smiles = None \<or> reference_smiles = Some [] \<Longrightarrow>
     Similarity \<notin> set (stages (snd (batch_process L input_file output_dir reference_smiles
        fp_type radius n_bits protonate ph_min ph_max num_confs)))"
  using batch_loop_no_reference [of L output_dir fp_type radius n_bits protonate ph_min ph_max
      num_confs]
  by (auto simp: batch_process_def Let_def split_beta split: sum.splits option.splits)

text \<open>
  Claim C5. Without a reference SMILES (\<^verbatim>\<open>None\<close>, or the empty string, which Python
  takes as false), no event of the similarity step occurs: no parse of a reference, no
  fingerprint, no Tanimoto score and no print of one. This holds for \<open>single_process\<close>,
  for \<open>batch_process\<close> over every file, and for the program started from the command line.
\<close>

theorem similarity_only_with_reference:
  "reference_smiles = None \<or> reference_smiles = Some [] \<Longrightarrow>
     Similarity \<notin> set (stages (snd (single_process L smiles output_base num_confs
        reference_smiles fp_type radius n_bits protonate ph_min ph_max)))
     \<and> Similarity \<notin> set (stages (snd (batch_process L input_file output_dir reference_smiles
        fp_type radius n_bits protonate ph_min ph_max num_confs)))
     \<and> (args_reference a = reference_smiles \<longrightarrow> Similarity \<notin> set (stages (snd (main L a))))"
  by (auto simp: main_def single_process_no_reference batch_process_no_reference
       split: option.splits)

theorem similarity_only_with_reference_witness:
  "Similarity \<notin> set (stages (snd (single_process toy_libs ''C'' ''out/m'' 2 None ''morgan'' 2
        2048 True 6.4 8.4)))
   \<and> Similarity \<notin> set (stages (snd (batch_process toy_libs ''a.smi'' ''out'' None ''morgan'' 2
        2048 True 6.4 8.4 2)))
   \<and> Similarity \<notin> set (stages (snd (main toy_libs
        \<lparr> args_input = Some ''a.smi'', args_output = ''out'', args_num_confs = 2,
          args_protonate = True, args_ph_min = 6.4, args_ph_max = 8.4, args_precision = 1,
          args_max_variants = 128, args_reference = None, args_fp_type = ''morgan'',
          args_radius = 2, args_bits = 2048 \<rparr>)))"
  using similarity_only_with_reference [of None toy_libs "''C''" "''out/m''" 2 "''morgan''" 2 2048
      True "6.4" "8.4" "''a.smi''" "''out''"
      "\<lparr> args_input = Some ''a.smi'', args_output = ''out'', args_num_confs = 2,
          args_protonate = True, args_ph_min = 6.4, args_ph_max = 8.4, args_precision = 1,
          args_max_variants = 128, args_reference = None, args_fp_type = ''morgan'',
          args_radius = 2, args_bits = 2048 \<rparr>"]
  by simp

subsection \<open>Optimization\<close>



















subsection \<open>Failures\<close>












subsection \<open>The loop of batch_process\<close>







subsection \<open>Runs and lines are independent\<close>











end
